theory Spec2Isabelle
  imports Complex_Main "HOL-Library.Multiset" "HOL-Library.Char_ord" "HOL-Library.List_Lexorder"
begin

section \<open>Python strings\<close>

text \<open>
  The judges are Python programs that work on \<open>str\<close> values. A string is a
  \<open>char list\<close>; the operations below are the ones the handlers call, restricted
  to ASCII text (a non-ASCII byte is treated as an uncased, non-space character).
\<close>

abbreviation NL :: char where "NL \<equiv> CHR 0x0A"
abbreviation DQ :: char where "DQ \<equiv> CHR 0x22"
abbreviation BSL :: char where "BSL \<equiv> CHR 0x5C"

text \<open>\<open>c.isspace()\<close> for one ASCII character.\<close>

definition is_space :: "char \<Rightarrow> bool" where
  "is_space c = (c \<in> set [CHR 0x09, CHR 0x0A, CHR 0x0B, CHR 0x0C, CHR 0x0D,
                            CHR 0x1C, CHR 0x1D, CHR 0x1E, CHR 0x1F, CHR 0x20])"

text \<open>\<open>s.strip()\<close>.\<close>

definition strip :: "string \<Rightarrow> string" where
  "strip s = rev (dropWhile is_space (rev (dropWhile is_space s)))"

text \<open>\<open>needle in hay\<close> for strings: \<open>starts_with\<close> is \<open>hay.startswith(needle)\<close>.\<close>

fun starts_with :: "string \<Rightarrow> string \<Rightarrow> bool" where
  "starts_with [] hay = True"
| "starts_with (n # ns) [] = False"
| "starts_with (n # ns) (h # hs) = (n = h \<and> starts_with ns hs)"

fun contains :: "string \<Rightarrow> string \<Rightarrow> bool" where
  "contains needle [] = starts_with needle []"
| "contains needle (h # hs) = (starts_with needle (h # hs) \<or> contains needle hs)"

text \<open>\<open>s.split(c)\<close> for a one-character separator, and \<open>sep.join(xs)\<close>.\<close>

fun split_on :: "char \<Rightarrow> string \<Rightarrow> string list" where
  "split_on c [] = [[]]"
| "split_on c (x # xs) =
     (if x = c then [] # split_on c xs
      else (case split_on c xs of [] \<Rightarrow> [[x]] | l # ls \<Rightarrow> (x # l) # ls))"

fun join :: "string \<Rightarrow> string list \<Rightarrow> string" where
  "join sep [] = []"
| "join sep [x] = x"
| "join sep (x # y # ys) = x @ sep @ join sep (y # ys)"

text \<open>\<open>str(n)\<close> for an integer, as the f-strings of the handlers format it.\<close>

fun str_nat :: "nat \<Rightarrow> string" where
  "str_nat n =
     (if n < 10 then [char_of (48 + n)]
      else str_nat (n div 10) @ [char_of (48 + n mod 10)])"


abbreviation SQ :: char where "SQ \<equiv> CHR 0x27"

text \<open>\<open>body.get(key, d)\<close>: a request field that may be absent is an \<open>option\<close>.\<close>

definition get_default :: "'a option \<Rightarrow> 'a \<Rightarrow> 'a" where
  "get_default v d = (case v of None \<Rightarrow> d | Some x \<Rightarrow> x)"

section \<open>Python exceptions\<close>

text \<open>
  A raised exception is a value. \<open>exc_kind\<close> records where the exception's class sits
  in the hierarchy, which is all the \<open>except\<close> clauses of the handlers test:
  an instance of \<open>TimeoutError\<close> (a subclass of \<open>Exception\<close>), an instance
  of \<open>Exception\<close> that is no \<open>TimeoutError\<close>, or a \<open>BaseException\<close> outside
  \<open>Exception\<close> (\<open>SystemExit\<close>, \<open>KeyboardInterrupt\<close>, \<open>GeneratorExit\<close>).
  \<open>exc_type_name\<close> is \<open>type(e).__name__\<close>, \<open>exc_traceback\<close> is what
  \<open>traceback.format_exc()\<close> returns while the exception is handled, and \<open>exc_str\<close>
  is the outcome of \<open>str(e)\<close>: a text, or the exception that a \<open>__str__\<close> method of
  the submitted code raises.
\<close>

datatype exc_kind = TimeoutErrorKind | ExceptionKind | BaseExceptionKind

datatype py_exc =
  PyExc (exc_kind: exc_kind) (exc_type_name: string) (exc_str: "py_exc + string")
        (exc_traceback: string)

text \<open>\<open>isinstance(e, Exception)\<close>.\<close>

definition is_Exception :: "py_exc \<Rightarrow> bool" where
  "is_Exception e = (exc_kind e \<noteq> BaseExceptionKind)"

text \<open>An exception of the interpreter or its library: an \<open>Exception\<close> with a plain text.\<close>

definition library_error :: "string \<Rightarrow> string \<Rightarrow> py_exc" where
  "library_error name msg = PyExc ExceptionKind name (Inr msg) []"

section \<open>Request values\<close>

text \<open>
  A field of a request is whatever \<open>json.loads\<close> made of it: \<open>None\<close>, a bool, an
  integer, a float (a finite one by its value, an infinity by its sign, or NaN), a string,
  a list or a dictionary (their contents do not matter here).
\<close>

datatype json =
    JNull | JBool bool | JInt int | JFloat rat | JInfinity bool | JNaN
  | JStr string | JArray | JObject

definition py_type_name :: "json \<Rightarrow> string" where
  "py_type_name v =
     (case v of
        JNull \<Rightarrow> ''NoneType'' | JBool b \<Rightarrow> ''bool'' | JInt n \<Rightarrow> ''int''
      | JFloat q \<Rightarrow> ''float'' | JInfinity s \<Rightarrow> ''float'' | JNaN \<Rightarrow> ''float''
      | JStr s \<Rightarrow> ''str'' | JArray \<Rightarrow> ''list'' | JObject \<Rightarrow> ''dict'')"

text \<open>
  \<open>v.strip()\<close> for a field that should hold text: only a \<open>str\<close> has the method, any
  other value raises \<open>AttributeError\<close>.
\<close>

definition no_strip_attribute :: "json \<Rightarrow> py_exc" where
  "no_strip_attribute v =
     library_error ''AttributeError''
       ([SQ] @ py_type_name v @ [SQ] @ '' object has no attribute '' @ [SQ] @ ''strip'' @ [SQ])"

definition text_field :: "json \<Rightarrow> py_exc + string" where
  "text_field v = (case v of JStr s \<Rightarrow> Inr s | _ \<Rightarrow> Inl (no_strip_attribute v))"

text \<open>
  \<open>min(v, cap)\<close> with an integer \<open>cap\<close>: Python evaluates \<open>cap < v\<close> and returns
  \<open>cap\<close> when that holds and \<open>v\<close> itself otherwise. The comparison is defined for
  bools (\<open>False\<close> is 0, \<open>True\<close> is 1), integers and floats (every comparison with NaN is
  false) and raises \<open>TypeError\<close> for every other value.
\<close>

definition int_less :: "int \<Rightarrow> json \<Rightarrow> py_exc + bool" where
  "int_less cap v =
     (case v of
        JBool b \<Rightarrow> Inr (cap < (if b then 1 else 0))
      | JInt n \<Rightarrow> Inr (cap < n)
      | JFloat q \<Rightarrow> Inr (of_int cap < q)
      | JInfinity positive \<Rightarrow> Inr positive
      | JNaN \<Rightarrow> Inr False
      | _ \<Rightarrow> Inl (library_error ''TypeError''
                    ([SQ] @ ''<'' @ [SQ] @ '' not supported between instances of '' @ [SQ]
                     @ ''int'' @ [SQ] @ '' and '' @ [SQ] @ py_type_name v @ [SQ])))"

definition py_min :: "json \<Rightarrow> int \<Rightarrow> py_exc + json" where
  "py_min v cap =
     (case int_less cap v of
        Inl e \<Rightarrow> Inl e
      | Inr True \<Rightarrow> Inr (JInt cap)
      | Inr False \<Rightarrow> Inr v)"







section \<open>Resource ceilings\<close>







section \<open>Entrypoint wrapping\<close>

text \<open>
  \<open>indent_code(code, spaces)\<close> of both container handlers:
  \<^verbatim>\<open>'\n'.join(' ' * spaces + line if line.strip() else line for line in code.split('\n'))\<close>.
\<close>

definition indent_line :: "nat \<Rightarrow> string \<Rightarrow> string" where
  "indent_line spaces line = (if strip line \<noteq> [] then replicate spaces CHR '' '' @ line else line)"

definition indent_code :: "string \<Rightarrow> nat \<Rightarrow> string" where
  "indent_code code spaces = join [NL] (map (indent_line spaces) (split_on NL code))"

text \<open>The C# adapter: the text written to \<open>Program.cs\<close> by \<open>execute_csharp_code\<close>.\<close>

definition csharp_template :: "string \<Rightarrow> string" where
  "csharp_template code =
     join [NL]
       [''using System;'',
        ''using System.Threading.Tasks;'',
        '''',
        ''class Program '',
        ''{'',
        ''    static void Main(string[] args)'',
        ''    {'',
        indent_code code 8,
        ''    }'',
        ''}'']"

definition csharp_has_main :: "string \<Rightarrow> bool" where
  "csharp_has_main code =
     (contains ''static void Main'' code \<or> contains ''static async Task Main'' code)"

definition csharp_wrapped_code :: "string \<Rightarrow> string" where
  "csharp_wrapped_code code =
     (if \<not> contains ''static void Main'' code \<and> \<not> contains ''static async Task Main'' code
      then csharp_template code
      else code)"

text \<open>The Go adapter: the text written to \<open>main.go\<close> by \<open>execute_go_code\<close>.\<close>

definition go_template :: "string \<Rightarrow> string" where
  "go_template code =
     join [NL]
       [''package main'',
        '''',
        ''import ('',
        ''    '' @ [DQ] @ ''fmt'' @ [DQ],
        ''    '' @ [DQ] @ ''bufio'' @ [DQ],
        ''    '' @ [DQ] @ ''os'' @ [DQ],
        ''    '' @ [DQ] @ ''strings'' @ [DQ],
        '')'',
        '''',
        ''func main() {'',
        indent_code code 4,
        ''}'']"

definition go_wrapped_code :: "string \<Rightarrow> string" where
  "go_wrapped_code code =
     (if \<not> contains ''func main()'' code then go_template code
      else if \<not> contains ''package main'' code then ''package main'' @ [NL, NL] @ code
      else code)"

section \<open>The Python judge: restricted in-process evaluation\<close>

text \<open>
  \<open>python-judge.py\<close>. The objects a namespace can hold are kept symbolic: a builtin
  function or class by its name, an imported module by its name, the injected test input,
  and the module \<open>builtins\<close> itself.
\<close>

datatype pyobj = Builtin string | Module string | Injected json | BuiltinsModule

type_synonym namespace = "string \<rightharpoonup> pyobj"

definition safe_builtins :: "(string \<times> pyobj) list" where
  "safe_builtins = map (\<lambda>n. (n, Builtin n))
     [''print'', ''len'', ''str'', ''int'', ''float'', ''bool'', ''list'', ''dict'',
      ''tuple'', ''set'', ''range'', ''enumerate'', ''zip'', ''map'', ''filter'', ''sum'',
      ''max'', ''min'', ''abs'', ''round'', ''sorted'', ''reversed'', ''any'', ''all'',
      ''isinstance'', ''type'', ''hasattr'', ''getattr'', ''setattr'', ''ord'', ''chr'',
      ''hex'', ''oct'', ''bin'',
      ''Exception'', ''ValueError'', ''TypeError'', ''KeyError'', ''IndexError'']"

definition safe_modules :: "(string \<times> pyobj) list" where
  "safe_modules = map (\<lambda>n. (n, Module n))
     [''math'', ''random'', ''string'', ''datetime'', ''json'']"

text \<open>\<open>create_restricted_globals()\<close> returns \<^verbatim>\<open>{**safe_builtins, **safe_modules}\<close>.\<close>

definition create_restricted_globals :: namespace where
  "create_restricted_globals = map_of safe_builtins ++ map_of safe_modules"

text \<open>
  The names of the interpreter's own \<open>builtins\<close> module that matter here: the ones
  the table repeats and a few it leaves out. (The module holds more; these are enough to
  tell the two namespaces apart.)
\<close>

definition ambient_builtins :: namespace where
  "ambient_builtins = map_of (safe_builtins @ map (\<lambda>n. (n, Builtin n))
     [''open'', ''__import__'', ''eval'', ''exec'', ''compile'', ''input'', ''globals'',
      ''SystemExit'', ''BaseException''])"

text \<open>
  What \<^verbatim>\<open>exec(code, globals)\<close> does to the dictionary it is given (Python language
  reference, \<open>exec\<close>): when the dictionary has no key \<open>__builtins__\<close>, a reference to
  the module \<open>builtins\<close> is inserted under that key before the code runs. A global
  name in the executed code is then looked up in the dictionary first and in the
  namespace found under \<open>__builtins__\<close> second.
\<close>

definition exec_globals :: "namespace \<Rightarrow> namespace" where
  "exec_globals g =
     (if g ''__builtins__'' = None then g(''__builtins__'' \<mapsto> BuiltinsModule) else g)"

definition resolve_name :: "namespace \<Rightarrow> namespace \<Rightarrow> string \<Rightarrow> pyobj option" where
  "resolve_name ambient g name =
     (case exec_globals g name of
        Some v \<Rightarrow> Some v
      | None \<Rightarrow>
          (case exec_globals g ''__builtins__'' of
             Some BuiltinsModule \<Rightarrow> ambient name
           | _ \<Rightarrow> None))"




text \<open>The namespace \<open>execute_python_code\<close> hands to \<open>exec\<close>.\<close>

definition exec_namespace :: "json \<Rightarrow> namespace" where
  "exec_namespace test_input =
     (case test_input of
        JNull \<Rightarrow> create_restricted_globals
      | _ \<Rightarrow> create_restricted_globals(''test_input'' \<mapsto> Injected test_input))"












section \<open>Child processes\<close>



section \<open>The Java judge\<close>





















section \<open>The C# and Go containers\<close>
















section \<open>The SQL judge: security screen\<close>

text \<open>\<open>sql-judge.py\<close>. \<open>s.upper()\<close> on ASCII text.\<close>

definition to_upper :: "char \<Rightarrow> char" where
  "to_upper c = (if CHR ''a'' \<le> c \<and> c \<le> CHR ''z'' then char_of (of_char c - (32::nat)) else c)"

definition upper :: "string \<Rightarrow> string" where
  "upper s = map to_upper s"

definition dangerous_statements :: "string list" where
  "dangerous_statements =
     [''DROP'', ''CREATE'', ''ALTER'', ''INSERT'', ''UPDATE'', ''DELETE'',
      ''TRUNCATE'', ''GRANT'', ''REVOKE'', ''EXEC'', ''EXECUTE'',
      ''CALL'', ''DO'', ''LOAD'', ''COPY'']"

definition dangerous_functions :: "string list" where
  "dangerous_functions =
     [''PG_SLEEP'', ''PG_TERMINATE_BACKEND'', ''PG_CANCEL_BACKEND'',
      ''LO_CREATE'', ''LO_UNLINK'', ''LO_IMPORT'', ''LO_EXPORT'']"

text \<open>
  The pattern of the statement test is written \<^verbatim>\<open>rf'\\b{statement}\\b'\<close>: a raw string, in
  which every backslash stands for itself, so the regular expression handed to
  \<open>re.search\<close> is backslash, backslash, \<open>b\<close>, the keyword, backslash, backslash, \<open>b\<close>.
  In a regular expression an escaped backslash matches one backslash and the \<open>b\<close> after it
  is an ordinary letter, so the expression matches exactly the texts that contain a
  backslash, a lower-case \<open>b\<close>, the keyword, a backslash and a lower-case \<open>b\<close> in a row.
\<close>

definition statement_pattern :: "string \<Rightarrow> string" where
  "statement_pattern statement = [BSL, BSL, CHR ''b''] @ statement @ [BSL, BSL, CHR ''b'']"

definition re_search_statement :: "string \<Rightarrow> string \<Rightarrow> bool" where
  "re_search_statement statement text =
     contains ([BSL, CHR ''b''] @ statement @ [BSL, CHR ''b'']) text"

fun first_statement_found :: "string list \<Rightarrow> string \<Rightarrow> string option" where
  "first_statement_found [] query_upper = None"
| "first_statement_found (statement # rest) query_upper =
     (if re_search_statement statement query_upper then Some statement
      else first_statement_found rest query_upper)"

text \<open>
  The pattern of the function test is written \<^verbatim>\<open>rf'\\b{func}\\s*\\('\<close>: backslash,
  backslash, \<open>b\<close>, the name, backslash, backslash, \<open>s\<close>, \<open>*\<close>, backslash, backslash,
  \<open>(\<close>. Its last character opens a group that nothing closes, so compiling the
  expression raises \<open>re.error\<close> (missing closing parenthesis, at the position of that
  character) before any text is looked at. The same holds for the pattern of the subquery
  count, \<^verbatim>\<open>r'\\(\\s*SELECT\\b'\<close>, whose group opens at position 2.
\<close>

definition function_pattern :: "string \<Rightarrow> string" where
  "function_pattern func =
     [BSL, BSL, CHR ''b''] @ func @ [BSL, BSL, CHR ''s'', CHR ''*'', BSL, BSL, CHR ''('']"

definition re_error_unterminated :: "nat \<Rightarrow> py_exc" where
  "re_error_unterminated pos =
     library_error ''error'' (''missing ), unterminated subpattern at position '' @ str_nat pos)"

fun first_function_found :: "string list \<Rightarrow> string \<Rightarrow> py_exc + string option" where
  "first_function_found [] query_upper = Inr None"
| "first_function_found (func # rest) query_upper =
     Inl (re_error_unterminated (length (function_pattern func) - 1))"

record security_check =
  sc_valid :: bool
  sc_reason :: "string option"

text \<open>\<open>validate_sql_security(query)\<close>.\<close>

definition validate_sql_security :: "string \<Rightarrow> py_exc + security_check" where
  "validate_sql_security query =
     (let query_upper = strip (upper query)
      in case first_statement_found dangerous_statements query_upper of
           Some statement \<Rightarrow>
             Inr \<lparr>sc_valid = False,
                  sc_reason = Some (statement @ '' statements are not allowed in read-only mode'')\<rparr>
         | None \<Rightarrow>
             (case first_function_found dangerous_functions query_upper of
                Inl e \<Rightarrow> Inl e
              | Inr (Some func) \<Rightarrow>
                  Inr \<lparr>sc_valid = False, sc_reason = Some (func @ '' function is not allowed'')\<rparr>
              | Inr None \<Rightarrow>
                  if length query > 10000
                  then Inr \<lparr>sc_valid = False,
                            sc_reason = Some ''Query exceeds maximum length (10KB)''\<rparr>
                  else Inl (re_error_unterminated 2)))"

datatype query_outcome = QuerySucceeded string nat | QueryFailed string

record sql_event =
  se_sql :: "json option"
  se_timeout :: "json option"

record sql_response =
  sr_statusCode :: int
  sr_success :: bool
  sr_stdout :: string
  sr_stderr :: string
  sr_executionTime :: int
  sr_memoryUsed :: int
  sr_exitCode :: int
  sr_error :: "string option"
  sr_rowsAffected :: "nat option"

definition sql_create_error_response :: "string \<Rightarrow> sql_response" where
  "sql_create_error_response message =
     \<lparr>sr_statusCode = 400, sr_success = False, sr_stdout = [], sr_stderr = message,
      sr_executionTime = 0, sr_memoryUsed = 0, sr_exitCode = 1, sr_error = Some message,
      sr_rowsAffected = None\<rparr>"

text \<open>
  The \<open>try\<close> block of \<open>lambda_handler\<close> in \<open>sql-judge.py\<close>. \<open>execute\<close> is
  \<open>execute_sql_query\<close> against the database; the second component of the result lists
  the queries that were handed to it.
\<close>

definition sql_handler_try ::
  "(string \<Rightarrow> json \<Rightarrow> query_outcome) \<Rightarrow> int \<Rightarrow> sql_event \<Rightarrow> (py_exc + sql_response) \<times> string list" where
  "sql_handler_try execute elapsed_ms event =
     (case text_field (get_default (se_sql event) (JStr [])) of
        Inl e \<Rightarrow> (Inl e, [])
      | Inr raw \<Rightarrow>
     (case py_min (get_default (se_timeout event) (JInt 30)) 60 of
        Inl e \<Rightarrow> (Inl e, [])
      | Inr timeout_seconds \<Rightarrow>
          if strip raw = [] then (Inr (sql_create_error_response ''No SQL query provided''), [])
          else if length (strip raw) > 10000
          then (Inr (sql_create_error_response ''Query too large (max 10KB)''), [])
          else (case validate_sql_security (strip raw) of
                  Inl e \<Rightarrow> (Inl e, [])
                | Inr security_check \<Rightarrow>
                    if \<not> sc_valid security_check
                    then (Inr (sql_create_error_response
                                 (''Security violation: ''
                                  @ get_default (sc_reason security_check) [])), [])
                    else (case execute (strip raw) timeout_seconds of
                            QuerySucceeded data row_count \<Rightarrow>
                              (Inr \<lparr>sr_statusCode = 200, sr_success = True, sr_stdout = data,
                                    sr_stderr = [], sr_executionTime = elapsed_ms,
                                    sr_memoryUsed = 24, sr_exitCode = 0, sr_error = None,
                                    sr_rowsAffected = Some row_count\<rparr>, [strip raw])
                          | QueryFailed message \<Rightarrow>
                              (Inr (sql_create_error_response message), [strip raw])))))"

text \<open>
  \<open>lambda_handler(event, context)\<close> of \<open>sql-judge.py\<close>: an \<open>Exception\<close> of the
  \<open>try\<close> block is answered with \<open>Query execution failed\<close>.
\<close>

definition sql_lambda_handler ::
  "(string \<Rightarrow> json \<Rightarrow> query_outcome) \<Rightarrow> int \<Rightarrow> sql_event \<Rightarrow> (py_exc + sql_response) \<times> string list" where
  "sql_lambda_handler execute elapsed_ms event =
     (case sql_handler_try execute elapsed_ms event of
        (Inr r, qs) \<Rightarrow> (Inr r, qs)
      | (Inl e, qs) \<Rightarrow>
          if is_Exception e
          then (case exc_str e of
                  Inl e' \<Rightarrow> (Inl e', qs)
                | Inr msg \<Rightarrow>
                    (Inr (sql_create_error_response (''Query execution failed: '' @ msg)), qs))
          else (Inl e, qs))"

section \<open>The SQL capsule validator\<close>

text \<open>
  \<open>sql-capsule-validator.py\<close>. A fetched row becomes a dictionary from column names to
  values (\<open>dict(row)\<close>): an association list in column order with distinct keys. A value
  is \<open>None\<close>, a number, a string, a byte string, or a list (a PostgreSQL array arrives
  as a Python list, which cannot be hashed). A number stands for its value: Python's
  \<open>==\<close> and \<open>hash\<close>, which decide membership in a set, identify an integer, a
  float and a bool of the same value. (NaN and values of other types are left out.)
\<close>

datatype sql_value =
  SqlNull | SqlNum rat | SqlText string | SqlBlob string | SqlArray "string list"

type_synonym row = "(string \<times> sql_value) list"

text \<open>
  What executing one statement leaves in the cursor: a result set (the rows and the column
  names of \<open>cursor.description\<close>), or none (a statement that returns no rows:
  \<open>cursor.description\<close> is \<open>None\<close>).
\<close>

datatype stmt_result = ResultSet "row list" "string list" | NoResultSet

text \<open>
  A database engine: executing a statement in a database state raises an exception of the
  driver's error class (\<open>sqlite3.Error\<close>, \<open>psycopg2.Error\<close>) with a message, raises
  an exception of another class, or yields the next state and the cursor's content.
\<close>

datatype 'db outcome = RaisedError string | RaisedOther py_exc | Executed 'db stmt_result

type_synonym 'db engine = "string \<Rightarrow> 'db \<Rightarrow> 'db outcome"

datatype failure = DriverError string | OtherException py_exc

record validation =
  v_success :: bool
  v_user_result :: "row list option"
  v_expected_result :: "row list option"
  v_columns :: "string list option"
  v_error :: "string option"

text \<open>
  \<^verbatim>\<open>tuple(sorted(row.items()))\<close>: the items are pairs with distinct first components,
  so sorting the pairs orders them by column name.
\<close>

definition row_key :: "row \<Rightarrow> row" where
  "row_key r = sort_key fst r"

definition hashable :: "sql_value \<Rightarrow> bool" where
  "hashable v = (case v of SqlArray xs \<Rightarrow> False | _ \<Rightarrow> True)"

definition rows_hashable :: "row list \<Rightarrow> bool" where
  "rows_hashable rows = list_all (\<lambda>r. list_all (\<lambda>kv. hashable (snd kv)) r) rows"

definition type_error :: "string \<Rightarrow> py_exc" where
  "type_error msg = library_error ''TypeError'' msg"

text \<open>
  The comparison both backends run after the user query has returned rows:
  \<^verbatim>\<open>is_correct = (set(tuple(sorted(row.items())) for row in user_result) ==
                 set(tuple(sorted(row.items())) for row in expected_result))\<close>, then
  \<^verbatim>\<open>if is_correct and user_cols != expected_cols: is_correct = False\<close>. Building a set hashes
  its members, which raises \<open>TypeError\<close> for a row that holds a list.
\<close>

definition is_correct :: "row list \<Rightarrow> string list \<Rightarrow> row list \<Rightarrow> string list \<Rightarrow> bool" where
  "is_correct user_result user_cols expected_result expected_cols =
     (let same_rows = (set (map row_key user_result) = set (map row_key expected_result))
      in if same_rows \<and> user_cols \<noteq> expected_cols then False else same_rows)"

definition compare_results ::
  "row list \<Rightarrow> string list \<Rightarrow> row list \<Rightarrow> string list \<Rightarrow> py_exc + validation" where
  "compare_results user_result user_cols expected_result expected_cols =
     (if \<not> (rows_hashable user_result \<and> rows_hashable expected_result)
      then Inl (type_error (''unhashable type: '' @ [SQ] @ ''list'' @ [SQ]))
      else Inr \<lparr>v_success = is_correct user_result user_cols expected_result expected_cols,
                v_user_result = Some user_result,
                v_expected_result = Some expected_result,
                v_columns = Some user_cols,
                v_error = (if is_correct user_result user_cols expected_result expected_cols
                           then None else Some ''Results do not match expected output'')\<rparr>)"

definition user_error_result :: "row list \<Rightarrow> string list \<Rightarrow> string \<Rightarrow> validation" where
  "user_error_result expected_result expected_cols msg =
     \<lparr>v_success = False, v_user_result = None, v_expected_result = Some expected_result,
      v_columns = Some expected_cols, v_error = Some (''SQL Error: '' @ msg)\<rparr>"

definition reference_only_result :: "row list \<Rightarrow> string list \<Rightarrow> validation" where
  "reference_only_result expected_result expected_cols =
     \<lparr>v_success = True, v_user_result = None, v_expected_result = Some expected_result,
      v_columns = Some expected_cols, v_error = None\<rparr>"

definition backend_error_result :: "string \<Rightarrow> string \<Rightarrow> validation" where
  "backend_error_result prefix msg =
     \<lparr>v_success = False, v_user_result = None, v_expected_result = None,
      v_columns = None, v_error = Some (prefix @ msg)\<rparr>"

subsection \<open>The in-memory backend\<close>

text \<open>
  The schema loop of \<open>validate_with_sqlite\<close>: blank statements are skipped, the first
  exception ends the loop. The list \<open>sent\<close> holds the statements handed to the engine.
\<close>

fun sqlite_schema ::
  "'db engine \<Rightarrow> string list \<Rightarrow> 'db \<Rightarrow> string list \<Rightarrow> (failure + 'db) \<times> string list" where
  "sqlite_schema eng [] db sent = (Inr db, sent)"
| "sqlite_schema eng (statement # rest) db sent =
     (if strip statement = [] then sqlite_schema eng rest db sent
      else (case eng statement db of
              RaisedError msg \<Rightarrow> (Inl (DriverError msg), sent @ [statement])
            | RaisedOther e \<Rightarrow> (Inl (OtherException e), sent @ [statement])
            | Executed db' r \<Rightarrow> sqlite_schema eng rest db' (sent @ [statement])))"

text \<open>
  \<open>validate_with_sqlite(schema_setup, reference_solution, user_query, expected_output)\<close>
  on a fresh database \<open>fresh\<close>. With SQLite, \<open>fetchall()\<close> after a statement without a
  result set returns no rows and iterating \<open>cursor.description\<close> raises \<open>TypeError\<close>,
  which neither \<^verbatim>\<open>except sqlite3.Error\<close> clause catches. \<open>Inl\<close> is an exception that
  leaves the function (the \<open>finally\<close> clause closes the connection, and the database is
  gone with it).
\<close>

definition none_not_iterable :: py_exc where
  "none_not_iterable =
     type_error ([SQ] @ ''NoneType'' @ [SQ] @ '' object is not iterable'')"

definition validate_with_sqlite ::
  "'db engine \<Rightarrow> 'db \<Rightarrow> string list \<Rightarrow> string \<Rightarrow> string \<Rightarrow> (py_exc + validation) \<times> string list" where
  "validate_with_sqlite eng fresh schema_setup reference_solution user_query =
     (case sqlite_schema eng schema_setup fresh [] of
        (Inl (DriverError msg), sent) \<Rightarrow> (Inr (backend_error_result ''SQLite Error: '' msg), sent)
      | (Inl (OtherException e), sent) \<Rightarrow> (Inl e, sent)
      | (Inr db1, sent) \<Rightarrow>
          (case eng reference_solution db1 of
             RaisedError msg \<Rightarrow>
               (Inr (backend_error_result ''SQLite Error: '' msg), sent @ [reference_solution])
           | RaisedOther e \<Rightarrow> (Inl e, sent @ [reference_solution])
           | Executed db2 NoResultSet \<Rightarrow> (Inl none_not_iterable, sent @ [reference_solution])
           | Executed db2 (ResultSet expected_result expected_cols) \<Rightarrow>
               if user_query \<noteq> []
               then (case eng user_query db2 of
                       RaisedError msg \<Rightarrow>
                         (Inr (user_error_result expected_result expected_cols msg),
                          sent @ [reference_solution, user_query])
                     | RaisedOther e \<Rightarrow> (Inl e, sent @ [reference_solution, user_query])
                     | Executed db3 NoResultSet \<Rightarrow>
                         (Inl none_not_iterable, sent @ [reference_solution, user_query])
                     | Executed db3 (ResultSet user_result user_cols) \<Rightarrow>
                         (compare_results user_result user_cols expected_result expected_cols,
                          sent @ [reference_solution, user_query]))
               else (Inr (reference_only_result expected_result expected_cols),
                     sent @ [reference_solution])))"

subsection \<open>The PostgreSQL backend\<close>

text \<open>
  The shared database as the connection sees it: the durable state, the state inside the
  open transaction (\<open>None\<close> when none is open), the statements sent, and whether the
  connection is closed. psycopg2 opens a transaction with the first statement; what a
  statement changes stays inside the transaction until a \<open>COMMIT\<close> makes it durable; a
  \<open>ROLLBACK\<close> or closing the connection discards it.
\<close>

record 'db pg_conn =
  pg_committed :: 'db
  pg_txn :: "'db option"
  pg_log :: "string list"
  pg_closed :: bool

datatype txn_command = TxnBegin | TxnCommit | TxnRollback | Ordinary

text \<open>A statement that is nothing but a transaction command, whatever its case, with or
  without the closing semicolon.\<close>

definition txn_command :: "string \<Rightarrow> txn_command" where
  "txn_command statement =
     (let word = upper (strip (takeWhile (\<lambda>c. c \<noteq> CHR '';'') (strip statement)))
      in if word = ''BEGIN'' \<or> word = ''START TRANSACTION'' then TxnBegin
         else if word = ''COMMIT'' \<or> word = ''END'' then TxnCommit
         else if word = ''ROLLBACK'' \<or> word = ''ABORT'' then TxnRollback
         else Ordinary)"

definition pg_view :: "'db pg_conn \<Rightarrow> 'db" where
  "pg_view conn = (case pg_txn conn of Some d \<Rightarrow> d | None \<Rightarrow> pg_committed conn)"

text \<open>\<open>cursor.execute(statement)\<close> on the connection.\<close>

definition pg_execute ::
  "'db engine \<Rightarrow> string \<Rightarrow> 'db pg_conn \<Rightarrow> (failure + stmt_result) \<times> 'db pg_conn" where
  "pg_execute eng statement conn =
     (let c = conn\<lparr>pg_log := pg_log conn @ [statement]\<rparr>
      in case txn_command statement of
           TxnBegin \<Rightarrow> (Inr NoResultSet, c\<lparr>pg_txn := Some (pg_view conn)\<rparr>)
         | TxnCommit \<Rightarrow> (Inr NoResultSet, c\<lparr>pg_committed := pg_view conn, pg_txn := None\<rparr>)
         | TxnRollback \<Rightarrow> (Inr NoResultSet, c\<lparr>pg_txn := None\<rparr>)
         | Ordinary \<Rightarrow>
             (case eng statement (pg_view conn) of
                RaisedError msg \<Rightarrow> (Inl (DriverError msg), c\<lparr>pg_txn := Some (pg_view conn)\<rparr>)
              | RaisedOther e \<Rightarrow> (Inl (OtherException e), c\<lparr>pg_txn := Some (pg_view conn)\<rparr>)
              | Executed db' r \<Rightarrow> (Inr r, c\<lparr>pg_txn := Some db'\<rparr>)))"

text \<open>\<open>conn.close()\<close>: an open transaction is discarded.\<close>

definition pg_close :: "'db pg_conn \<Rightarrow> 'db pg_conn" where
  "pg_close conn = conn\<lparr>pg_txn := None, pg_closed := True\<rparr>"

fun pg_schema ::
  "'db engine \<Rightarrow> string list \<Rightarrow> 'db pg_conn \<Rightarrow> failure option \<times> 'db pg_conn" where
  "pg_schema eng [] conn = (None, conn)"
| "pg_schema eng (statement # rest) conn =
     (if strip statement = [] then pg_schema eng rest conn
      else (case pg_execute eng statement conn of
              (Inl f, conn') \<Rightarrow> (Some f, conn')
            | (Inr r, conn') \<Rightarrow> pg_schema eng rest conn'))"

text \<open>
  How an exception leaves the outer \<open>try\<close> statement of \<open>validate_with_postgres\<close>: a
  \<open>psycopg2.Error\<close> is answered by the \<open>except\<close> clause, any other exception
  propagates. Neither path sends \<open>ROLLBACK\<close>.
\<close>

definition pg_failed :: "failure \<Rightarrow> py_exc + validation" where
  "pg_failed f =
     (case f of
        DriverError msg \<Rightarrow> Inr (backend_error_result ''PostgreSQL Error: '' msg)
      | OtherException e \<Rightarrow> Inl e)"

text \<open>
  The statement \<^verbatim>\<open>cursor.execute("ROLLBACK;")\<close> followed by \<^verbatim>\<open>return result\<close>.
\<close>

definition pg_rollback_then ::
  "'db engine \<Rightarrow> validation \<Rightarrow> 'db pg_conn \<Rightarrow> (py_exc + validation) \<times> 'db pg_conn" where
  "pg_rollback_then eng result conn =
     (case pg_execute eng ''ROLLBACK;'' conn of
        (Inl f, conn') \<Rightarrow> (pg_failed f, conn')
      | (Inr r, conn') \<Rightarrow> (Inr result, conn'))"

text \<open>
  The user-query branch: the inner \<open>try\<close> statement catches a \<open>psycopg2.Error\<close> of the
  query (with psycopg2, \<open>fetchall()\<close> after a statement without a result set raises
  \<open>ProgrammingError\<close>, a \<open>psycopg2.Error\<close>) and lets any other exception pass, also the
  \<open>TypeError\<close> of the comparison; \<open>ROLLBACK\<close> is sent after the inner statement only.
\<close>

definition pg_user_query ::
  "'db engine \<Rightarrow> string \<Rightarrow> row list \<Rightarrow> string list \<Rightarrow> 'db pg_conn
     \<Rightarrow> (py_exc + validation) \<times> 'db pg_conn" where
  "pg_user_query eng user_query expected_result expected_cols conn =
     (case pg_execute eng user_query conn of
        (Inl (DriverError msg), c) \<Rightarrow>
          pg_rollback_then eng (user_error_result expected_result expected_cols msg) c
      | (Inl (OtherException e), c) \<Rightarrow> (Inl e, c)
      | (Inr NoResultSet, c) \<Rightarrow>
          pg_rollback_then eng
            (user_error_result expected_result expected_cols ''no results to fetch'') c
      | (Inr (ResultSet user_result user_cols), c) \<Rightarrow>
          (case compare_results user_result user_cols expected_result expected_cols of
             Inl e \<Rightarrow> (Inl e, c)
           | Inr result \<Rightarrow> pg_rollback_then eng result c))"

text \<open>
  The body of \<open>validate_with_postgres\<close> between \<open>connect\<close> and the \<open>finally\<close> clause.
\<close>

definition postgres_body ::
  "'db engine \<Rightarrow> string list \<Rightarrow> string \<Rightarrow> string \<Rightarrow> 'db pg_conn \<Rightarrow> (py_exc + validation) \<times> 'db pg_conn" where
  "postgres_body eng schema_setup reference_solution user_query conn0 =
     (case pg_execute eng ''BEGIN;'' conn0 of
        (Inl f, c1) \<Rightarrow> (pg_failed f, c1)
      | (Inr r0, c1) \<Rightarrow>
     (case pg_schema eng schema_setup c1 of
        (Some f, c2) \<Rightarrow> (pg_failed f, c2)
      | (None, c2) \<Rightarrow>
     (case pg_execute eng reference_solution c2 of
        (Inl f, c3) \<Rightarrow> (pg_failed f, c3)
      | (Inr NoResultSet, c3) \<Rightarrow> (pg_failed (DriverError ''no results to fetch''), c3)
      | (Inr (ResultSet expected_result expected_cols), c3) \<Rightarrow>
          if user_query \<noteq> []
          then pg_user_query eng user_query expected_result expected_cols c3
          else pg_rollback_then eng (reference_only_result expected_result expected_cols) c3)))"

text \<open>
  \<open>validate_with_postgres(schema_setup, reference_solution, user_query, expected_output)\<close>:
  \<open>connect_error\<close> is the message of the \<open>psycopg2.Error\<close> that \<open>connect\<close> raises, if it
  does; otherwise the body runs on the fresh connection and the \<open>finally\<close> clause closes it.
\<close>

definition validate_with_postgres ::
  "'db engine \<Rightarrow> string option \<Rightarrow> string list \<Rightarrow> string \<Rightarrow> string \<Rightarrow> 'db pg_conn
     \<Rightarrow> (py_exc + validation) \<times> 'db pg_conn" where
  "validate_with_postgres eng connect_error schema_setup reference_solution user_query conn0 =
     (case connect_error of
        Some msg \<Rightarrow> (Inr (backend_error_result ''PostgreSQL Error: '' msg), conn0)
      | None \<Rightarrow>
          (case postgres_body eng schema_setup reference_solution user_query conn0 of
             (outcome, conn) \<Rightarrow> (outcome, pg_close conn)))"

text \<open>
  A small engine for running the validators on concrete capsules: the database is the list
  of its tables' names; \<open>CREATE TABLE t\<close> adds a table, \<open>DROP TABLE t\<close> removes one,
  \<open>SELECT COUNT\<close> answers with the number of tables, anything else is a syntax error.
\<close>

definition table_engine :: "string list engine" where
  "table_engine statement db =
     (if starts_with ''CREATE TABLE '' statement
      then Executed (db @ [drop 13 statement]) NoResultSet
      else if starts_with ''DROP TABLE '' statement
      then Executed (filter (\<lambda>t. t \<noteq> drop 11 statement) db) NoResultSet
      else if statement = ''SELECT COUNT''
      then Executed db (ResultSet [[(''n'', SqlNum (of_nat (length db)))]] [''n''])
      else RaisedError ''syntax error'')"


section \<open>The specification's wording\<close>



section \<open>Facts about strings\<close>

lemma starts_with_iff: "starts_with n h = (\<exists>s. h = n @ s)"
  by (induction n h rule: starts_with.induct) auto

lemma contains_iff: "contains n h = (\<exists>p s. h = p @ n @ s)"
proof (induction h)
  case Nil
  show ?case by (cases n) (simp_all add: starts_with_iff)
next
  case (Cons a h)
  show ?case
  proof
    assume "contains n (a # h)"
    then consider "starts_with n (a # h)" | "contains n h" by auto
    then show "\<exists>p s. a # h = p @ n @ s"
    proof cases
      case 1
      then obtain s where "a # h = n @ s" by (auto simp: starts_with_iff)
      then have "a # h = [] @ n @ s" by simp
      then show ?thesis by blast
    next
      case 2
      then obtain p s where "h = p @ n @ s" using Cons.IH by blast
      then have "a # h = (a # p) @ n @ s" by simp
      then show ?thesis by blast
    qed
  next
    assume "\<exists>p s. a # h = p @ n @ s"
    then obtain p s where ps: "a # h = p @ n @ s" by blast
    show "contains n (a # h)"
    proof (cases p)
      case Nil
      with ps have "starts_with n (a # h)" by (auto simp: starts_with_iff)
      then show ?thesis by simp
    next
      case (Cons b q)
      with ps have "h = q @ n @ s" by simp
      then have "contains n h" using Cons.IH by blast
      then show ?thesis by simp
    qed
  qed
qed

lemma contains_append_left: "contains n h \<Longrightarrow> contains n (p @ h)"
  unfolding contains_iff by (metis append.assoc)

lemma contains_append_right: "contains n h \<Longrightarrow> contains n (h @ s)"
  unfolding contains_iff by (metis append.assoc)

lemma contains_self_between: "contains n (p @ n @ s)"
  unfolding contains_iff by blast

section \<open>Wrapping is decided by three marker texts\<close>

lemma csharp_template_has_main: "contains ''static void Main'' (csharp_template code)"
proof -
  have "csharp_template code =
      (''using System;'' @ [NL] @ ''using System.Threading.Tasks;'' @ [NL] @ [NL]
        @ ''class Program '' @ [NL] @ ''{'' @ [NL] @ ''    '')
      @ ''static void Main''
      @ (''(string[] args)'' @ [NL] @ ''    {'' @ [NL] @ indent_code code 8 @ [NL]
        @ ''    }'' @ [NL] @ ''}'')"
    by (simp add: csharp_template_def)
  then show ?thesis
    using contains_self_between by metis
qed

lemma go_template_has_func_main: "contains ''func main()'' (go_template code)"
proof -
  have "go_template code =
      (''package main'' @ [NL] @ [NL] @ ''import ('' @ [NL]
        @ ''    '' @ [DQ] @ ''fmt'' @ [DQ] @ [NL]
        @ ''    '' @ [DQ] @ ''bufio'' @ [DQ] @ [NL]
        @ ''    '' @ [DQ] @ ''os'' @ [DQ] @ [NL]
        @ ''    '' @ [DQ] @ ''strings'' @ [DQ] @ [NL]
        @ '')'' @ [NL] @ [NL])
      @ ''func main()''
      @ ('' {'' @ [NL] @ indent_code code 4 @ [NL] @ ''}'')"
    by (simp add: go_template_def)
  then show ?thesis
    using contains_self_between by metis
qed

lemma go_template_has_package: "contains ''package main'' (go_template code)"
proof -
  have "starts_with ''package main'' (go_template code)"
    by (simp add: go_template_def)
  then show ?thesis
    by (cases "go_template code") simp_all
qed

lemma starts_with_contains: "starts_with n h \<Longrightarrow> contains n h"
  by (cases h) simp_all

lemma csharp_wrapped_has_main: "csharp_has_main (csharp_wrapped_code code)"
  using csharp_template_has_main
  by (auto simp add: csharp_wrapped_code_def csharp_has_main_def)

lemma csharp_pass: "csharp_has_main c \<Longrightarrow> csharp_wrapped_code c = c"
  by (auto simp add: csharp_wrapped_code_def csharp_has_main_def)

lemma csharp_wrap_idem:
  "csharp_wrapped_code (csharp_wrapped_code code) = csharp_wrapped_code code"
  by (rule csharp_pass [OF csharp_wrapped_has_main])

lemma go_pass:
  "contains ''func main()'' g \<Longrightarrow>
   go_wrapped_code g = (if contains ''package main'' g then g else ''package main'' @ [NL, NL] @ g)"
  by (simp add: go_wrapped_code_def)

lemma go_wrapped_has_both:
  "contains ''func main()'' (go_wrapped_code code) \<and> contains ''package main'' (go_wrapped_code code)"
proof (cases "contains ''func main()'' code")
  case False
  then show ?thesis
    by (simp add: go_wrapped_code_def go_template_has_func_main go_template_has_package)
next
  case True
  have a: "contains ''package main'' (''package main'' @ [NL, NL] @ code)"
    using contains_self_between [of "''package main''" "[]" "[NL, NL] @ code"] by simp
  have b: "contains ''func main()'' (''package main'' @ [NL, NL] @ code)"
    using contains_append_left [OF True, of "''package main'' @ [NL, NL]"] by simp
  show ?thesis
    using True a b by (simp add: go_wrapped_code_def del: contains.simps)
qed

lemma go_wrap_idem: "go_wrapped_code (go_wrapped_code code) = go_wrapped_code code"
  using go_wrapped_has_both [of code]
  by (simp add: go_wrapped_code_def [of "go_wrapped_code code"])

lemma csharp_template_has_program: "contains ''class Program '' (csharp_template code)"
proof -
  have "csharp_template code =
      (''using System;'' @ [NL] @ ''using System.Threading.Tasks;'' @ [NL] @ [NL])
      @ ''class Program ''
      @ ([NL] @ ''{'' @ [NL] @ ''    static void Main(string[] args)'' @ [NL] @ ''    {'' @ [NL]
         @ indent_code code 8 @ [NL] @ ''    }'' @ [NL] @ ''}'')"
    by (simp add: csharp_template_def)
  then show ?thesis
    using contains_self_between by metis
qed

lemma csharp_unchanged_iff: "(csharp_wrapped_code c = c) = csharp_has_main c"
proof
  assume u: "csharp_wrapped_code c = c"
  show "csharp_has_main c"
    using csharp_wrapped_has_main [of c] u by simp
next
  assume "csharp_has_main c"
  then show "csharp_wrapped_code c = c"
    by (rule csharp_pass)
qed

lemma go_unchanged_iff:
  "(go_wrapped_code g = g) = (contains ''func main()'' g \<and> contains ''package main'' g)"
proof
  assume u: "go_wrapped_code g = g"
  show "contains ''func main()'' g \<and> contains ''package main'' g"
    using go_wrapped_has_both [of g] u by simp
next
  assume "contains ''func main()'' g \<and> contains ''package main'' g"
  then show "go_wrapped_code g = g"
    by (simp add: go_wrapped_code_def)
qed

lemma no_marker_wrapped:
  assumes "\<not> csharp_has_main c"
  shows "csharp_wrapped_code c \<noteq> c \<and> contains ''class Program '' (csharp_wrapped_code c)
         \<and> csharp_wrapped_code c = csharp_template c"
proof -
  have t: "csharp_wrapped_code c = csharp_template c"
    using assms by (simp add: csharp_wrapped_code_def csharp_has_main_def)
  have "csharp_wrapped_code c \<noteq> c"
    using assms csharp_unchanged_iff by blast
  then show ?thesis
    using t csharp_template_has_program [of c] by simp
qed

text \<open>
  Claim C9 as stated: every source that already contains its own complete runnable
  entrypoint is passed to the compiler unmodified. The adapters recognise an entrypoint by
  three fixed texts only. The C# program below has a \<open>Main\<close> method that returns
  \<open>int\<close>, and the Go program writes \<open>func main ()\<close> with a space; both are complete and
  both are embedded in a second, synthetic entrypoint.
\<close>

theorem entrypoint_spelling_counterexample:
  "csharp_wrapped_code ''class P { static int Main() { return 0; } }''
     \<noteq> ''class P { static int Main() { return 0; } }''
   \<and> contains ''class Program '' (csharp_wrapped_code ''class P { static int Main() { return 0; } }'')
   \<and> go_wrapped_code (''package main'' @ [NL] @ ''func main () { }'')
     \<noteq> ''package main'' @ [NL] @ ''func main () { }''
   \<and> go_wrapped_code (''package main'' @ [NL] @ ''func main () { }'')
     = go_template (''package main'' @ [NL] @ ''func main () { }'')"
proof -
  have n: "\<not> csharp_has_main ''class P { static int Main() { return 0; } }''"
    by (simp add: csharp_has_main_def)
  have g: "\<not> contains ''func main()'' (''package main'' @ [NL] @ ''func main () { }'')"
    by simp
  have g1: "go_wrapped_code (''package main'' @ [NL] @ ''func main () { }'')
            = go_template (''package main'' @ [NL] @ ''func main () { }'')"
    using g by (simp add: go_wrapped_code_def)
  have g2: "go_wrapped_code (''package main'' @ [NL] @ ''func main () { }'')
            \<noteq> ''package main'' @ [NL] @ ''func main () { }''"
    using g go_unchanged_iff [of "''package main'' @ [NL] @ ''func main () { }''"] by blast
  show ?thesis
    using no_marker_wrapped [OF n] g1 g2 by blast
qed

text \<open>
  Claim C9, amended: the adapter writes a source to the source file unmodified exactly
  when the source contains the text \<open>static void Main\<close> or \<open>static async Task Main\<close>
  (C#), or both \<open>func main()\<close> and \<open>package main\<close> (Go); a Go source with
  \<open>func main()\<close> and without \<open>package main\<close> gets the package clause and an empty line
  in front and nothing else; a source without the marker text is embedded in the synthetic
  wrapper, also when it is a complete program whose entrypoint is spelled otherwise. What
  the adapter writes always contains the marker texts, so wrapping is idempotent on every
  source.
\<close>

theorem wrapping_follows_marker_text:
  "(csharp_wrapped_code c = c) = csharp_has_main c
   \<and> (go_wrapped_code g = g) = (contains ''func main()'' g \<and> contains ''package main'' g)
   \<and> go_wrapped_code g =
       (if contains ''func main()'' g
        then (if contains ''package main'' g then g else ''package main'' @ [NL, NL] @ g)
        else go_template g)
   \<and> csharp_wrapped_code c = (if csharp_has_main c then c else csharp_template c)
   \<and> csharp_has_main (csharp_wrapped_code c)
   \<and> contains ''func main()'' (go_wrapped_code g)
   \<and> contains ''package main'' (go_wrapped_code g)
   \<and> csharp_wrapped_code (csharp_wrapped_code c) = csharp_wrapped_code c
   \<and> go_wrapped_code (go_wrapped_code g) = go_wrapped_code g"
proof -
  have a: "go_wrapped_code g =
       (if contains ''func main()'' g
        then (if contains ''package main'' g then g else ''package main'' @ [NL, NL] @ g)
        else go_template g)"
    by (simp add: go_wrapped_code_def)
  have b: "csharp_wrapped_code c = (if csharp_has_main c then c else csharp_template c)"
    by (simp add: csharp_wrapped_code_def csharp_has_main_def)
  show ?thesis
    using a b csharp_unchanged_iff [of c] go_unchanged_iff [of g] csharp_wrapped_has_main [of c]
      go_wrapped_has_both [of g] csharp_wrap_idem [of c] go_wrap_idem [of g]
    by blast
qed

section \<open>Resource ceilings are capped from above only\<close>





lemma py_min_not_number:
  assumes "v = JNull \<or> v = JArray \<or> v = JObject \<or> (\<exists>s. v = JStr s)"
  shows "py_min v cap =
         Inl (library_error ''TypeError''
                ([SQ] @ ''<'' @ [SQ] @ '' not supported between instances of '' @ [SQ]
                 @ ''int'' @ [SQ] @ '' and '' @ [SQ] @ py_type_name v @ [SQ]))"
  using assms by (auto simp add: py_min_def int_less_def)









section \<open>Exceptions and timeouts in the Python and Java judges\<close>











section \<open>A failed build stops the pipeline\<close>









section \<open>Result comparison in the capsule validator\<close>











section \<open>The deny-list screen of the SQL judge\<close>

lemma to_upper_not_b: "to_upper c \<noteq> CHR ''b''"
proof (cases "CHR ''a'' \<le> c \<and> c \<le> CHR ''z''")
  case True
  then have r: "97 \<le> (of_char c :: nat)" "(of_char c :: nat) \<le> 122"
    by (simp_all add: less_eq_char_def)
  have "char_of (of_char c - (32::nat)) \<noteq> CHR ''b''"
  proof
    assume "char_of (of_char c - (32::nat)) = CHR ''b''"
    then have "(of_char (char_of (of_char c - (32::nat))) :: nat) = of_char CHR ''b''"
      by simp
    then have "(of_char c - 32 :: nat) mod 256 = 98"
      by (simp add: of_char_of)
    then show False
      using r by simp
  qed
  then show ?thesis
    using True by (simp add: to_upper_def)
next
  case False
  then have "c \<noteq> CHR ''b''"
    by (auto simp add: less_eq_char_def)
  moreover have "to_upper c = c"
    unfolding to_upper_def using False by (rule if_not_P)
  ultimately show ?thesis
    by simp
qed

lemma upper_has_no_b: "CHR ''b'' \<notin> set (upper s)"
proof
  assume "CHR ''b'' \<in> set (upper s)"
  then obtain c where "to_upper c = CHR ''b''"
    unfolding upper_def by auto
  then show False
    using to_upper_not_b by blast
qed

lemma strip_subset: "set (strip s) \<subseteq> set s"
proof
  fix x assume "x \<in> set (strip s)"
  then have "x \<in> set (dropWhile is_space (rev (dropWhile is_space s)))"
    by (simp add: strip_def)
  then have "x \<in> set (rev (dropWhile is_space s))"
    by (rule set_dropWhileD)
  then have "x \<in> set (dropWhile is_space s)"
    by simp
  then show "x \<in> set s"
    by (rule set_dropWhileD)
qed

lemma re_search_statement_needs_b:
  assumes "CHR ''b'' \<notin> set text"
  shows "\<not> re_search_statement statement text"
proof
  assume "re_search_statement statement text"
  then obtain p s where "text = p @ ([BSL, CHR ''b''] @ statement @ [BSL, CHR ''b'']) @ s"
    unfolding re_search_statement_def contains_iff by blast
  then have "CHR ''b'' \<in> set text"
    by simp
  then show False
    using assms by simp
qed

lemma first_statement_found_none:
  assumes "CHR ''b'' \<notin> set text"
  shows "first_statement_found statements text = None"
  using re_search_statement_needs_b [OF assms] by (induction statements) simp_all

lemma screen_finds_no_statement:
  "first_statement_found dangerous_statements (strip (upper query)) = None"
proof -
  have "CHR ''b'' \<notin> set (strip (upper query))"
    using upper_has_no_b strip_subset by blast
  then show ?thesis
    by (rule first_statement_found_none)
qed

lemma first_function_raises:
  "first_function_found dangerous_functions text = Inl (re_error_unterminated 17)"
proof -
  have "length (function_pattern ''PG_SLEEP'') - 1 = 17"
    by (simp add: function_pattern_def)
  then show ?thesis
    by (simp add: dangerous_functions_def)
qed

lemma validate_sql_security_raises:
  "validate_sql_security query = Inl (re_error_unterminated 17)"
  by (simp add: validate_sql_security_def screen_finds_no_statement first_function_raises)

lemma re_error_text:
  "re_error_unterminated 17 =
   PyExc ExceptionKind ''error''
     (Inr ''missing ), unterminated subpattern at position 17'') []"
  unfolding re_error_unterminated_def library_error_def by code_simp

text \<open>
  Claim C2: a query with a mutating statement is rejected by the deny-list screen with a
  security rejection before it reaches a database engine. In the code the screen
  \<open>validate_sql_security\<close> rejects no query at all: for every query it ends in the
  \<open>re.error\<close> of its first function pattern, which the handler answers with
  \<open>Query execution failed\<close> instead of \<open>Security violation\<close>; and the capsule
  validator has no screen, so that a \<open>DROP\<close> submitted as user query is handed to the
  engine.
\<close>

theorem deny_list_screen_rejects_nothing:
  "validate_sql_security query = Inl (re_error_unterminated 17)
   \<and> sql_lambda_handler execute elapsed_ms
        \<lparr>se_sql = Some (JStr ''DROP TABLE users''), se_timeout = None\<rparr> =
      (Inr (sql_create_error_response
              ''Query execution failed: missing ), unterminated subpattern at position 17''),
       [])
   \<and> sql_create_error_response
        ''Query execution failed: missing ), unterminated subpattern at position 17''
      \<noteq> sql_create_error_response
          ''Security violation: DROP statements are not allowed in read-only mode''
   \<and> validate_with_sqlite table_engine [] [''CREATE TABLE t''] ''SELECT COUNT'' ''DROP TABLE t'' =
      (Inl none_not_iterable, [''CREATE TABLE t'', ''SELECT COUNT'', ''DROP TABLE t''])"
proof -
  have s: "strip ''DROP TABLE users'' = ''DROP TABLE users''"
    by (simp add: strip_def is_space_def)
  have t: "py_min (JInt 30) 60 = Inr (JInt 30)"
    by (simp add: py_min_def int_less_def)
  have h: "sql_handler_try execute elapsed_ms
             \<lparr>se_sql = Some (JStr ''DROP TABLE users''), se_timeout = None\<rparr> =
           (Inl (re_error_unterminated 17), [])"
    by (simp add: sql_handler_try_def get_default_def text_field_def s t
        validate_sql_security_raises)
  have a: "sql_lambda_handler execute elapsed_ms
        \<lparr>se_sql = Some (JStr ''DROP TABLE users''), se_timeout = None\<rparr> =
      (Inr (sql_create_error_response
              ''Query execution failed: missing ), unterminated subpattern at position 17''),
       [])"
    unfolding sql_lambda_handler_def h
    by (simp add: re_error_text is_Exception_def)
  have b: "sql_create_error_response
        ''Query execution failed: missing ), unterminated subpattern at position 17''
      \<noteq> sql_create_error_response
          ''Security violation: DROP statements are not allowed in read-only mode''"
    by (simp add: sql_create_error_response_def)
  have k: "strip ''CREATE TABLE t'' \<noteq> []"
    by (simp add: strip_def is_space_def)
  have c: "validate_with_sqlite table_engine [] [''CREATE TABLE t''] ''SELECT COUNT'' ''DROP TABLE t'' =
      (Inl none_not_iterable, [''CREATE TABLE t'', ''SELECT COUNT'', ''DROP TABLE t''])"
    using k by (simp add: validate_with_sqlite_def table_engine_def)
  from validate_sql_security_raises a b c show ?thesis
    by blast
qed

section \<open>Name resolution in the restricted interpreter\<close>

lemma restricted_globals_no_builtins_key: "create_restricted_globals ''__builtins__'' = None"
  by (simp add: create_restricted_globals_def safe_builtins_def safe_modules_def)

lemma exec_namespace_no_builtins_key: "exec_namespace test_input ''__builtins__'' = None"
  by (cases test_input) (simp_all add: exec_namespace_def restricted_globals_no_builtins_key)

lemma exec_globals_of_namespace:
  "exec_globals (exec_namespace test_input) =
   (exec_namespace test_input)(''__builtins__'' \<mapsto> BuiltinsModule)"
  by (simp add: exec_globals_def exec_namespace_no_builtins_key)

lemma resolve_name_in_namespace:
  "resolve_name ambient (exec_namespace test_input) name =
   (case exec_namespace test_input name of
      Some v \<Rightarrow> Some v
    | None \<Rightarrow> if name = ''__builtins__'' then Some BuiltinsModule else ambient name)"
  unfolding resolve_name_def exec_globals_of_namespace
  using exec_namespace_no_builtins_key [of test_input]
  by (cases "exec_namespace test_input name") auto

lemma open_not_in_table: "exec_namespace JNull ''open'' = None"
  by (simp add: exec_namespace_def create_restricted_globals_def safe_builtins_def
      safe_modules_def)

lemma import_not_in_table: "exec_namespace JNull ''__import__'' = None"
  by (simp add: exec_namespace_def create_restricted_globals_def safe_builtins_def
      safe_modules_def)

text \<open>
  Claim C3: the submitted code resolves names against the capability table only. The table
  that \<open>create_restricted_globals\<close> builds has no key \<open>__builtins__\<close>, so \<open>exec\<close>
  inserts the interpreter's own \<open>builtins\<close> module under that key, and every name that
  the table lacks is resolved there: \<open>open\<close> and \<open>__import__\<close> are not in the table
  and are available to the submitted code.
\<close>

theorem names_resolve_in_ambient_builtins:
  "exec_namespace test_input ''__builtins__'' = None
   \<and> resolve_name ambient (exec_namespace test_input) name =
      (case exec_namespace test_input name of
         Some v \<Rightarrow> Some v
       | None \<Rightarrow> if name = ''__builtins__'' then Some BuiltinsModule else ambient name)
   \<and> exec_namespace JNull ''open'' = None
   \<and> resolve_name ambient_builtins (exec_namespace JNull) ''open'' = Some (Builtin ''open'')
   \<and> exec_namespace JNull ''__import__'' = None
   \<and> resolve_name ambient_builtins (exec_namespace JNull) ''__import__''
      = Some (Builtin ''__import__'')"
proof -
  have a: "ambient_builtins ''open'' = Some (Builtin ''open'')"
    by (simp add: ambient_builtins_def safe_builtins_def)
  have b: "ambient_builtins ''__import__'' = Some (Builtin ''__import__'')"
    by (simp add: ambient_builtins_def safe_builtins_def)
  have c: "resolve_name ambient_builtins (exec_namespace JNull) ''open'' = Some (Builtin ''open'')"
    unfolding resolve_name_in_namespace open_not_in_table using a by simp
  have d: "resolve_name ambient_builtins (exec_namespace JNull) ''__import__''
           = Some (Builtin ''__import__'')"
    unfolding resolve_name_in_namespace import_not_in_table using b by simp
  from exec_namespace_no_builtins_key resolve_name_in_namespace open_not_in_table c
    import_not_in_table d
  show ?thesis by blast
qed

section \<open>The transaction of the PostgreSQL backend\<close>

lemma txn_command_values:
  "txn_command ''BEGIN;'' = TxnBegin" "txn_command ''ROLLBACK;'' = TxnRollback"
  "txn_command ''COMMIT'' = TxnCommit" "txn_command ''CREATE TABLE t'' = Ordinary"
  "txn_command ''SELECT COUNT'' = Ordinary" "txn_command ''SELEKT'' = Ordinary"
  by (simp_all add: txn_command_def strip_def is_space_def upper_def to_upper_def Let_def)

text \<open>
  Claim C5: the statements run in one transaction that is rolled back on every exit path,
  so the shared database is the same after the invocation as before. The code sends
  \<open>ROLLBACK\<close> on the paths that reach the end of the outer \<open>try\<close> block only, and it
  sends the statements of the capsule as they are: a user query \<open>COMMIT\<close> ends the
  transaction and makes the table of the schema setup durable; the \<open>ROLLBACK\<close> that
  follows has nothing left to undo. When the reference query fails, no \<open>ROLLBACK\<close> is
  sent at all (closing the connection discards the transaction).
\<close>

theorem user_commit_survives_rollback:
  "validate_with_postgres table_engine None [''CREATE TABLE t''] ''SELECT COUNT'' ''COMMIT''
     \<lparr>pg_committed = [], pg_txn = None, pg_log = [], pg_closed = False\<rparr> =
   (Inr (user_error_result [[(''n'', SqlNum 1)]] [''n''] ''no results to fetch''),
    \<lparr>pg_committed = [''t''], pg_txn = None,
     pg_log = [''BEGIN;'', ''CREATE TABLE t'', ''SELECT COUNT'', ''COMMIT'', ''ROLLBACK;''],
     pg_closed = True\<rparr>)
   \<and> validate_with_postgres table_engine None [''CREATE TABLE t''] ''SELEKT'' ''SELECT COUNT''
     \<lparr>pg_committed = [], pg_txn = None, pg_log = [], pg_closed = False\<rparr> =
   (Inr (backend_error_result ''PostgreSQL Error: '' ''syntax error''),
    \<lparr>pg_committed = [], pg_txn = None,
     pg_log = [''BEGIN;'', ''CREATE TABLE t'', ''SELEKT''],
     pg_closed = True\<rparr>)"
proof -
  have k: "strip ''CREATE TABLE t'' \<noteq> []"
    by (simp add: strip_def is_space_def)
  have a: "validate_with_postgres table_engine None [''CREATE TABLE t''] ''SELECT COUNT'' ''COMMIT''
     \<lparr>pg_committed = [], pg_txn = None, pg_log = [], pg_closed = False\<rparr> =
   (Inr (user_error_result [[(''n'', SqlNum 1)]] [''n''] ''no results to fetch''),
    \<lparr>pg_committed = [''t''], pg_txn = None,
     pg_log = [''BEGIN;'', ''CREATE TABLE t'', ''SELECT COUNT'', ''COMMIT'', ''ROLLBACK;''],
     pg_closed = True\<rparr>)"
    using k
    by (simp add: validate_with_postgres_def postgres_body_def pg_execute_def pg_view_def
        pg_user_query_def pg_rollback_then_def pg_close_def txn_command_values table_engine_def
        Let_def)
  have b: "validate_with_postgres table_engine None [''CREATE TABLE t''] ''SELEKT'' ''SELECT COUNT''
     \<lparr>pg_committed = [], pg_txn = None, pg_log = [], pg_closed = False\<rparr> =
   (Inr (backend_error_result ''PostgreSQL Error: '' ''syntax error''),
    \<lparr>pg_committed = [], pg_txn = None,
     pg_log = [''BEGIN;'', ''CREATE TABLE t'', ''SELEKT''],
     pg_closed = True\<rparr>)"
    using k
    by (simp add: validate_with_postgres_def postgres_body_def pg_execute_def pg_view_def
        pg_failed_def pg_close_def txn_command_values table_engine_def Let_def)
  from a b show ?thesis by blast
qed

end
